theory Spec2Isabelle
  imports Complex_Main "HOL-Library.AList"
begin

section \<open>Text\<close>

text \<open>
  Python \<open>str\<close> values are modelled by HOL strings: sequences of code points below 256.
  On that range \<open>str.lower\<close> shifts \<open>A..Z\<close> and the Latin-1 capitals (192..222 without
  the multiplication sign 215) by 32 and leaves every other code point alone.
\<close>

definition lower_char :: "char \<Rightarrow> char" where
  "lower_char c =
     (let n = (of_char c :: int) in
      if (65 \<le> n \<and> n \<le> 90) \<or> (192 \<le> n \<and> n \<le> 222 \<and> n \<noteq> 215)
      then char_of (n + 32) else c)"

definition lower :: "string \<Rightarrow> string" where
  "lower s = map lower_char s"

text \<open>\<open>sub in s\<close> on strings: \<open>sub\<close> occurs in \<open>s\<close> as a contiguous block.\<close>

fun starts_with :: "string \<Rightarrow> string \<Rightarrow> bool" where
  "starts_with [] s = True"
| "starts_with (p # ps) [] = False"
| "starts_with (p # ps) (x # xs) = (if p = x then starts_with ps xs else False)"

fun contains :: "string \<Rightarrow> string \<Rightarrow> bool" where
  "contains sub [] = starts_with sub []"
| "contains sub (x # xs) = (if starts_with sub (x # xs) then True else contains sub xs)"

text \<open>\<open>sep.join(parts)\<close>.\<close>

fun join :: "string \<Rightarrow> string list \<Rightarrow> string" where
  "join sep [] = []"
| "join sep [p] = p"
| "join sep (p # q # ps) = p @ sep @ join sep (q # ps)"

section \<open>Regular expressions of the blacklists\<close>

text \<open>
  The patterns handed to \<open>re.search\<close> are sequences of these items only: a literal
  character, \<open>.\<close>, \<open>\b\<close>, \<open>.*\<close> and \<open>\s*\<close>. \<open>Cp n\<close> is a literal given by its code point,
  for the Katakana pattern, whose code points lie outside the modelled text.
  Only the existence of a match is asked for, so greedy and lazy repetition agree.
\<close>

datatype atom = Lit char | Cp int | AnyCh | WordB | AnyStar | SpStar

text \<open>\<open>\w\<close>, \<open>\s\<close> and the newline that \<open>.\<close> refuses, for \<open>str\<close> patterns (Unicode classes).\<close>

definition is_word :: "char \<Rightarrow> bool" where
  "is_word c =
     (let n = (of_char c :: int) in
      (48 \<le> n \<and> n \<le> 57) \<or> (65 \<le> n \<and> n \<le> 90) \<or> n = 95 \<or> (97 \<le> n \<and> n \<le> 122)
      \<or> n = 170 \<or> n = 178 \<or> n = 179 \<or> n = 181 \<or> n = 185 \<or> n = 186
      \<or> (188 \<le> n \<and> n \<le> 190) \<or> (192 \<le> n \<and> n \<le> 214) \<or> (216 \<le> n \<and> n \<le> 246)
      \<or> 248 \<le> n)"

definition is_space :: "char \<Rightarrow> bool" where
  "is_space c =
     (let n = (of_char c :: int) in
      (9 \<le> n \<and> n \<le> 13) \<or> (28 \<le> n \<and> n \<le> 32) \<or> n = 133 \<or> n = 160)"

definition is_newline :: "char \<Rightarrow> bool" where
  "is_newline c = ((of_char c :: int) = 10)"

text \<open>A position outside the string counts as a non-word character for \<open>\b\<close>.\<close>

fun word_at :: "char option \<Rightarrow> bool" where
  "word_at None = False"
| "word_at (Some c) = is_word c"

fun first_char :: "string \<Rightarrow> char option" where
  "first_char [] = None"
| "first_char (x # xs) = Some x"

text \<open>
  \<open>matches_at p prev s\<close>: the pattern matches a prefix of \<open>s\<close>, where \<open>prev\<close> is the
  character just before \<open>s\<close> in the searched text. \<open>\b\<close> consumes nothing: it holds
  where exactly one of the two neighbours is a word character.
\<close>

fun matches_at :: "atom list \<Rightarrow> char option \<Rightarrow> string \<Rightarrow> bool" where
  "matches_at [] prev s = True"
| "matches_at (Lit c # as) prev [] = False"
| "matches_at (Lit c # as) prev (x # xs) =
     (if x = c then matches_at as (Some x) xs else False)"
| "matches_at (Cp n # as) prev [] = False"
| "matches_at (Cp n # as) prev (x # xs) =
     (if of_char x = n then matches_at as (Some x) xs else False)"
| "matches_at (AnyCh # as) prev [] = False"
| "matches_at (AnyCh # as) prev (x # xs) =
     (if is_newline x then False else matches_at as (Some x) xs)"
| "matches_at (WordB # as) prev s =
     (if matches_at as prev s then word_at prev \<noteq> word_at (first_char s) else False)"
| "matches_at (AnyStar # as) prev [] = matches_at as prev []"
| "matches_at (AnyStar # as) prev (x # xs) =
     (if matches_at as prev (x # xs) then True
      else if is_newline x then False
      else matches_at (AnyStar # as) (Some x) xs)"
| "matches_at (SpStar # as) prev [] = matches_at as prev []"
| "matches_at (SpStar # as) prev (x # xs) =
     (if matches_at as prev (x # xs) then True
      else if is_space x then matches_at (SpStar # as) (Some x) xs
      else False)"

fun search_from :: "atom list \<Rightarrow> char option \<Rightarrow> string \<Rightarrow> bool" where
  "search_from p prev [] = matches_at p prev []"
| "search_from p prev (x # xs) =
     (if matches_at p prev (x # xs) then True else search_from p (Some x) xs)"

definition re_search :: "atom list \<Rightarrow> string \<Rightarrow> bool" where
  "re_search p s = search_from p None s"

text \<open>Pattern builders: a run of literal characters, and a word-bounded literal.\<close>

definition lit :: "string \<Rightarrow> atom list" where
  "lit s = map Lit s"

definition wb :: "string \<Rightarrow> atom list" where
  "wb s = WordB # lit s @ [WordB]"

definition FILAMENT_BLACKLIST :: "atom list list" where
  "FILAMENT_BLACKLIST =
     [wb ''filament'', wb ''pla'', wb ''petg'', wb ''pet-cf'', wb ''tpu'',
      wb ''peba'', wb ''pa-cf'', wb ''nylon'', wb ''asa'', wb ''spidermaker'',
      [Cp 12501, Cp 12451, Cp 12521, Cp 12513, Cp 12531, Cp 12488]]"

definition HARDWARE_BLACKLIST :: "atom list list" where
  "HARDWARE_BLACKLIST =
     [wb ''halot'', wb ''mage'', wb ''combo'', wb ''plate'',
      wb ''toolkit'', wb ''lcd'', wb ''screen'', wb ''fep'', wb ''nfep'', wb ''film'',
      wb ''curing station'', wb ''washing station'',
      WordB # lit ''wash'' @ AnyStar # lit ''cure'' @ [WordB],
      WordB # lit ''cure'' @ AnyStar # lit ''wash'' @ [WordB],
      wb ''heater'', wb ''retrofit'', wb ''dryer'', wb ''kobra'', wb ''neptune'',
      wb ''nozzle'', wb ''hotend'', wb ''extruder'', wb ''platform'', wb ''magnetic'',
      wb ''airpure'', wb ''tube'', wb ''hub'', wb ''kit'', wb ''part'', wb ''adhesive'',
      wb ''sheet'', wb ''glass'', wb ''board'', wb ''controller'', wb ''cable'',
      wb ''module'', wb ''sensor'', wb ''fan'', wb ''motor'', wb ''camera'', wb ''led'',
      wb ''cfs'', wb ''spacepi'', wb ''storage'', wb ''box'', wb ''system'',
      wb ''screw'', wb ''wiper'', wb ''cutter'', wb ''assembly'', wb ''pcba'',
      wb ''antenna'', WordB # lit ''power'' @ SpStar # lit ''supply'' @ [WordB],
      wb ''wire'', wb ''tools'', wb ''shaft'',
      wb ''nut'', lit ''filter'', lit ''switch'', lit ''coupler'', lit ''holder'',
      lit ''ace'' @ SpStar # lit ''pro'', lit ''belt'',
      lit ''touchscreen'', lit ''screen'', lit ''relay'', lit ''spring'', lit ''lock'',
      wb ''hose'', lit ''reusable'' @ SpStar # lit ''spool'',
      lit ''coating'']"

definition NON_PRODUCT_BLACKLIST :: "atom list list" where
  "NON_PRODUCT_BLACKLIST =
     [lit ''guide'', lit ''review'', lit ''recensione'', lit ''guarantee'', lit ''support'',
      lit ''shipping'', lit ''service'',
      lit ''years of'', lit ''black friday'', lit ''deal'', lit ''campfire'',
      lit ''202'' @ [AnyCh], lit ''bundle'', lit ''pack'',
      lit ''set'', lit ''gift'', lit ''protection'', lit ''deposit'', lit ''claim'',
      lit ''link'', lit ''coupon'', lit ''discount'',
      lit ''sale'', lit ''clearance'', lit ''refurbished'', lit ''renewed'', lit ''usado'',
      lit ''reacondicionado'',
      lit ''membership'', lit ''subscription'', lit ''prize'', lit ''reward'', lit ''seel'',
      lit ''insurance'',
      lit ''soleyin'', lit ''3d'' @ SpStar # lit ''pen'']"

definition RESIN_BLACKLIST :: "atom list list" where
  "RESIN_BLACKLIST =
     [lit ''resin'', lit ''wash'', lit ''cure'', lit ''dlp'', lit ''sla'', lit ''photon'',
      lit ''mono'', lit ''halot'',
      lit ''creality'' @ SpStar # lit ''3d'' @ SpStar # lit ''printer'',
      lit ''anycubic'' @ SpStar # lit ''3d'' @ SpStar # lit ''printer'',
      lit ''elegoo'' @ SpStar # lit ''3d'' @ SpStar # lit ''printer'']"

section \<open>Values and exceptions\<close>

text \<open>
  A product is a Python \<open>dict\<close> whose values come from JSON or from the scrapers. A dict
  is an association list in insertion order; \<open>JFloat\<close> carries a finite float.
\<close>

datatype jval =
    JNull
  | JBool bool
  | JInt int
  | JFloat real
  | JStr string
  | JList "jval list"
  | JObj "(string \<times> jval) list"

datatype py_error = AttributeError | TypeError | KeyError | IndexError | ValueError

text \<open>Truth value of an object, as \<open>not\<close>, \<open>or\<close> and \<open>if\<close> take it.\<close>

fun truthy :: "jval \<Rightarrow> bool" where
  "truthy JNull = False"
| "truthy (JBool b) = b"
| "truthy (JInt i) = (i \<noteq> 0)"
| "truthy (JFloat r) = (r \<noteq> 0)"
| "truthy (JStr s) = (s \<noteq> [])"
| "truthy (JList xs) = (xs \<noteq> [])"
| "truthy (JObj kvs) = (kvs \<noteq> [])"

definition py_or :: "jval \<Rightarrow> jval \<Rightarrow> jval" where
  "py_or a b = (if truthy a then a else b)"

text \<open>\<open>d.get(k)\<close> gives None for an absent key, \<open>d.get(k, dflt)\<close> gives \<open>dflt\<close>.\<close>

definition opt_get :: "(string \<times> jval) list \<Rightarrow> string \<Rightarrow> jval" where
  "opt_get d k = (case map_of d k of None \<Rightarrow> JNull | Some v \<Rightarrow> v)"

definition get_or :: "(string \<times> jval) list \<Rightarrow> string \<Rightarrow> jval \<Rightarrow> jval" where
  "get_or d k dflt = (case map_of d k of None \<Rightarrow> dflt | Some v \<Rightarrow> v)"

text \<open>\<open>obj.get(k, d)\<close>: only a dict has \<open>get\<close>.\<close>

fun py_get :: "jval \<Rightarrow> string \<Rightarrow> jval \<Rightarrow> py_error + jval" where
  "py_get (JObj kvs) k d = Inr (get_or kvs k d)"
| "py_get _ k d = Inl AttributeError"

text \<open>\<open>v.lower()\<close>: only a string has \<open>lower\<close>.\<close>

fun py_lower :: "jval \<Rightarrow> py_error + string" where
  "py_lower (JStr s) = Inr (lower s)"
| "py_lower _ = Inl AttributeError"

text \<open>Monadic sequencing over \<open>py_error + 'a\<close>: the first exception wins.\<close>

definition bind :: "py_error + 'a \<Rightarrow> ('a \<Rightarrow> py_error + 'b) \<Rightarrow> py_error + 'b" where
  "bind m f = (case m of Inl e \<Rightarrow> Inl e | Inr x \<Rightarrow> f x)"

fun map_err :: "('a \<Rightarrow> py_error + 'b) \<Rightarrow> 'a list \<Rightarrow> py_error + 'b list" where
  "map_err f [] = Inr []"
| "map_err f (x # xs) = bind (f x) (\<lambda>y. bind (map_err f xs) (\<lambda>ys. Inr (y # ys)))"

text \<open>
  \<open>for t in v\<close>: a list yields its elements, a string its characters, a dict its keys;
  None, booleans and numbers are not iterable.
\<close>

fun py_iter :: "jval \<Rightarrow> py_error + jval list" where
  "py_iter (JList xs) = Inr xs"
| "py_iter (JStr s) = Inr (map (\<lambda>c. JStr [c]) s)"
| "py_iter (JObj kvs) = Inr (map (\<lambda>kv. JStr (fst kv)) kvs)"
| "py_iter _ = Inl TypeError"

section \<open>Validation engine (scraper.py, validate_product)\<close>

definition hits :: "atom list list \<Rightarrow> string \<Rightarrow> bool" where
  "hits pats text = list_ex (\<lambda>pat. re_search pat text) pats"

text \<open>
  A blacklist hit prints \<open>product['name']\<close> before returning False: the subscript raises
  KeyError on a dict without that key.
\<close>

fun reject :: "jval \<Rightarrow> py_error + bool" where
  "reject (JObj kvs) = (case map_of kvs ''name'' of None \<Rightarrow> Inl KeyError | Some v \<Rightarrow> Inr False)"
| "reject _ = Inl TypeError"

definition validate_product :: "jval \<Rightarrow> string \<Rightarrow> py_error + bool" where
  "validate_product product category =
     bind (py_get product ''name'' (JStr [])) (\<lambda>nm.
     bind (py_lower nm) (\<lambda>name_lower.
     bind (py_get product ''tags'' (JList [])) (\<lambda>tv.
     bind (py_iter tv) (\<lambda>ts.
     bind (map_err py_lower ts) (\<lambda>tags.
       let all_text = name_lower @ '' '' @ join '' '' tags in
       if category = ''resin'' then
         if hits FILAMENT_BLACKLIST all_text then reject product
         else if hits HARDWARE_BLACKLIST all_text then reject product
         else if hits NON_PRODUCT_BLACKLIST all_text then reject product
         else if re_search (wb ''abs'') name_lower \<and> \<not> contains ''like'' name_lower
           then Inr False
         else Inr True
       else if category = ''filament'' then
         if hits RESIN_BLACKLIST name_lower then reject product
         else if hits HARDWARE_BLACKLIST name_lower then reject product
         else if hits NON_PRODUCT_BLACKLIST all_text then reject product
         else Inr True
       else Inr True)))))"

section \<open>Merge engine (scraper.py, merge_with_existing)\<close>

text \<open>\<open>"resin" if "resin" in filepath else "filament"\<close>.\<close>

definition category_of :: "string \<Rightarrow> string" where
  "category_of filepath = (if contains ''resin'' filepath then ''resin'' else ''filament'')"

text \<open>\<open>(item.get("brand", "").lower(), item.get("name", "").lower())\<close>.\<close>

definition identity_key :: "jval \<Rightarrow> py_error + (string \<times> string)" where
  "identity_key item =
     bind (py_get item ''brand'' (JStr [])) (\<lambda>b.
     bind (py_lower b) (\<lambda>bl.
     bind (py_get item ''name'' (JStr [])) (\<lambda>n.
     bind (py_lower n) (\<lambda>nl. Inr (bl, nl)))))"

text \<open>
  \<open>existing_item.update({...})\<close>: the five values are read from the incoming item and
  the entry as it was, then stored in the order of the dict literal; a key already in
  the entry keeps its place, a new key goes to the end.
\<close>

fun update_entry :: "jval \<Rightarrow> jval \<Rightarrow> py_error + jval" where
  "update_entry (JObj existing_item) (JObj item) =
     Inr (JObj
       (AList.update ''tags'' (py_or (opt_get item ''tags'') (opt_get existing_item ''tags''))
       (AList.update ''description''
          (py_or (opt_get item ''description'') (opt_get existing_item ''description''))
       (AList.update ''image'' (py_or (opt_get item ''image'') (opt_get existing_item ''image''))
       (AList.update ''params'' (get_or item ''params'' (opt_get existing_item ''params''))
       (AList.update ''profiles'' (get_or item ''profiles'' (opt_get existing_item ''profiles''))
          existing_item))))))"
| "update_entry _ _ = Inl AttributeError"

text \<open>
  The list \<open>existing\<close> holds objects. An entry appended from \<open>new_data\<close> is the very
  object of \<open>new_data\<close>, so a later in-place update of it shows through \<open>new_data\<close> as
  well: such an entry carries its index in \<open>new_data\<close>, an entry of the file carries None.
\<close>

type_synonym entry = "jval \<times> nat option"

text \<open>
  The inner loop: the first entry with the key of the item is updated in place. The
  result is None when no entry has that key.
\<close>

fun find_update :: "string \<times> string \<Rightarrow> jval \<Rightarrow> entry list \<Rightarrow> py_error + entry list option" where
  "find_update key item [] = Inr None"
| "find_update key item (e # es) =
     bind (identity_key (fst e)) (\<lambda>k.
       if k = key
       then bind (update_entry (fst e) item) (\<lambda>e'. Inr (Some ((e', snd e) # es)))
       else bind (find_update key item es) (\<lambda>r. Inr (map_option ((#) e) r)))"

definition merge_item :: "nat \<Rightarrow> jval \<Rightarrow> entry list \<Rightarrow> py_error + entry list" where
  "merge_item i item existing =
     bind (identity_key item) (\<lambda>key.
     bind (find_update key item existing) (\<lambda>r.
       case r of Some existing' \<Rightarrow> Inr existing'
               | None \<Rightarrow> Inr (existing @ [(item, Some i)])))"

text \<open>
  The outer loop over \<open>new_data\<close>, from index \<open>i\<close> on. An exception leaves the loop with
  the list as it was before the failing item (nothing is written before the key of the
  item and the keys of the entries up to the match have been computed).
\<close>

fun merge_loop :: "nat \<Rightarrow> jval list \<Rightarrow> entry list \<Rightarrow> entry list \<times> py_error option" where
  "merge_loop i [] existing = (existing, None)"
| "merge_loop i (item # items) existing =
     (case merge_item i item existing of
        Inl err \<Rightarrow> (existing, Some err)
      | Inr existing' \<Rightarrow> merge_loop (Suc i) items existing')"

text \<open>\<open>[item for item in existing if validate_product(item, category)]\<close>.\<close>

fun keep_valid :: "string \<Rightarrow> jval list \<Rightarrow> py_error + jval list" where
  "keep_valid category [] = Inr []"
| "keep_valid category (item # items) =
     bind (validate_product item category) (\<lambda>ok.
     bind (keep_valid category items) (\<lambda>rest.
       Inr (if ok then item # rest else rest)))"

text \<open>The list \<open>new_data\<close> as the handler returns it: with the in-place updates so far.\<close>

fun write_back :: "entry list \<Rightarrow> jval list \<Rightarrow> jval list" where
  "write_back [] new_data = new_data"
| "write_back ((v, None) # es) new_data = write_back es new_data"
| "write_back ((v, Some i) # es) new_data = write_back es (new_data[i := v])"

text \<open>
  The file behind \<open>filepath\<close>: \<open>Missing\<close> when \<open>os.path.exists\<close> is false; \<open>Loaded xs\<close>
  when \<open>json.load\<close> returns the array \<open>xs\<close>; \<open>Unreadable\<close> when \<open>open\<close> or \<open>json.load\<close>
  raises. A file holding JSON that is not an array also counts as \<open>Unreadable\<close>: iterating
  it, calling \<open>get\<close> on its elements or \<open>append\<close> on it raises before anything is written,
  or else both it and \<open>new_data\<close> are empty, and in every case \<open>new_data\<close> is returned.
\<close>

datatype catalog_file = Missing | Unreadable | Loaded "jval list"

definition merge_with_existing :: "jval list \<Rightarrow> string \<Rightarrow> catalog_file \<Rightarrow> jval list" where
  "merge_with_existing new_data filepath file =
     (case file of
        Missing \<Rightarrow> new_data
      | Unreadable \<Rightarrow> new_data
      | Loaded existing \<Rightarrow>
          (case merge_loop 0 new_data (map (\<lambda>e. (e, None)) existing) of
             (merged, Some err) \<Rightarrow> write_back merged new_data
           | (merged, None) \<Rightarrow>
               (case keep_valid (category_of filepath) (map fst merged) of
                  Inl err \<Rightarrow> write_back merged new_data
                | Inr final_list \<Rightarrow> final_list)))"

text \<open>
  The shape of the entries that \<open>convert_to_frontend_schema\<close> builds and the catalog file
  persists: a dict whose \<open>brand\<close> and \<open>name\<close> are strings and whose \<open>tags\<close> is a list of
  strings.
\<close>

fun is_str :: "jval \<Rightarrow> bool" where
  "is_str (JStr s) = True"
| "is_str _ = False"

fun is_str_list :: "jval \<Rightarrow> bool" where
  "is_str_list (JList ts) = list_all is_str ts"
| "is_str_list _ = False"

fun catalog_entry :: "jval \<Rightarrow> bool" where
  "catalog_entry (JObj kvs) =
     (is_str (opt_get kvs ''brand'') \<and> is_str (opt_get kvs ''name'')
      \<and> is_str_list (opt_get kvs ''tags''))"
| "catalog_entry _ = False"

section \<open>Classification heuristics (strategies/shopify.py, scraper.py)\<close>

text \<open>\<open>detect_product_type(title, product_type="")\<close>: the checks in their written order.\<close>

definition detect_product_type :: "string \<Rightarrow> string \<Rightarrow> string" where
  "detect_product_type title product_type =
     (let title_lower = lower (title @ '' '' @ product_type) in
      if contains ''pla+'' title_lower \<or> contains ''pla plus'' title_lower then ''PLA+''
      else if contains ''petg'' title_lower then ''PETG''
      else if contains ''abs'' title_lower then ''ABS''
      else if contains ''asa'' title_lower then ''ASA''
      else if contains ''tpu'' title_lower \<or> contains ''tpe'' title_lower
              \<or> contains ''flex'' title_lower then ''TPU''
      else if contains ''nylon'' title_lower \<or> contains ''pa12'' title_lower
              \<or> contains ''pa6'' title_lower then ''Nylon''
      else if contains ''silk'' title_lower then ''Silk PLA''
      else if contains ''matte'' title_lower then ''Matte PLA''
      else if contains ''wood'' title_lower then ''Wood''
      else if contains ''carbon'' title_lower \<or> contains ''cf'' title_lower then ''Carbon Fiber''
      else if contains ''pla'' title_lower then ''PLA''
      else if contains ''water wash'' title_lower then ''Water Washable''
      else if contains ''abs-like'' title_lower \<or> contains ''abs like'' title_lower
        then ''ABS-Like''
      else if contains ''tough'' title_lower then ''Tough''
      else if contains ''flexible'' title_lower \<or> contains ''elastic'' title_lower
        then ''Flexible''
      else if contains ''dental'' title_lower then ''Dental''
      else if contains ''castable'' title_lower then ''Castable''
      else if contains ''clear'' title_lower \<or> contains ''transparent'' title_lower
        then ''Transparent''
      else if contains ''resin'' title_lower then ''Standard''
      else ''Standard'')"

text \<open>The colour table of \<open>detect_color\<close>, in the insertion order of the dict.\<close>

definition colors :: "(string \<times> string \<times> string) list" where
  "colors =
     [(''black'', ''#000000'', ''Black''),
      (''white'', ''#ffffff'', ''White''),
      (''grey'', ''#808080'', ''Grey''),
      (''gray'', ''#808080'', ''Grey''),
      (''red'', ''#ef4444'', ''Red''),
      (''blue'', ''#3b82f6'', ''Blue''),
      (''green'', ''#22c55e'', ''Green''),
      (''yellow'', ''#eab308'', ''Yellow''),
      (''orange'', ''#f97316'', ''Orange''),
      (''purple'', ''#a855f7'', ''Purple''),
      (''pink'', ''#ec4899'', ''Pink''),
      (''clear'', ''#e5e7eb'', ''Clear''),
      (''transparent'', ''#e5e7eb'', ''Transparent''),
      (''silver'', ''#c0c0c0'', ''Silver''),
      (''gold'', ''#ffd700'', ''Gold''),
      (''beige'', ''#d4a574'', ''Beige''),
      (''navy'', ''#3f4756'', ''Navy''),
      (''teal'', ''#14b8a6'', ''Teal''),
      (''cyan'', ''#06b6d4'', ''Cyan'')]"

fun first_color :: "(string \<times> string \<times> string) list \<Rightarrow> string \<Rightarrow> string \<times> string" where
  "first_color [] text = (''#808080'', ''Grey'')"
| "first_color ((keyword, hex_code, name) # rest) text =
     (if contains keyword text then (hex_code, name) else first_color rest text)"

definition detect_color :: "string \<Rightarrow> string \<Rightarrow> string \<times> string" where
  "detect_color title variant_title = first_color colors (lower (title @ '' '' @ variant_title))"

text \<open>
  \<open>enrich_product(product, category)\<close>. The three fills follow each other on the same
  dict. A name that is not a string makes \<open>title + " "\<close> raise TypeError, but only where
  a detector is called. \<open>str(name)\<close> of a dict is its \<open>repr\<close>; the text plays no role
  below and the builtin is the parameter \<open>py_str\<close>.
\<close>

definition fill_type :: "jval \<Rightarrow> (string \<times> jval) list \<Rightarrow> py_error + (string \<times> jval) list" where
  "fill_type name product =
     (if \<not> truthy (opt_get product ''type'') then
        (case name of
           JStr s \<Rightarrow> Inr (AList.update ''type'' (JStr (detect_product_type s [])) product)
         | _ \<Rightarrow> Inl TypeError)
      else Inr product)"

definition fill_color :: "jval \<Rightarrow> (string \<times> jval) list \<Rightarrow> py_error + (string \<times> jval) list" where
  "fill_color name product =
     (if \<not> truthy (opt_get product ''color'') then
        (case name of
           JStr s \<Rightarrow>
             (case detect_color s [] of (color_hex, color_name) \<Rightarrow>
                Inr (AList.update ''color_name'' (JStr color_name)
                      (AList.update ''color'' (JStr color_hex) product)))
         | _ \<Rightarrow> Inl TypeError)
      else Inr product)"

definition fill_tags :: "(string \<times> jval) list \<Rightarrow> (string \<times> jval) list" where
  "fill_tags product =
     (if \<not> truthy (opt_get product ''tags'')
      then AList.update ''tags'' (JList [get_or product ''type'' (JStr ''Standard'')]) product
      else product)"

fun enrich_product :: "(jval \<Rightarrow> string) \<Rightarrow> jval \<Rightarrow> string \<Rightarrow> py_error + jval" where
  "enrich_product py_str (JObj product) category =
     (case get_or product ''name'' (JStr []) of
        JObj rendered \<Rightarrow>
          (let name = get_or rendered ''rendered'' (JStr (py_str (JObj rendered))) in
           bind (fill_type name (AList.update ''name'' name product)) (\<lambda>product1.
           bind (fill_color name product1) (\<lambda>product2.
           Inr (JObj (fill_tags product2)))))
      | name \<Rightarrow>
           bind (fill_type name product) (\<lambda>product1.
           bind (fill_color name product1) (\<lambda>product2.
           Inr (JObj (fill_tags product2)))))"
| "enrich_product py_str _ category = Inl AttributeError"

section \<open>Shopify endpoints (strategies/shopify.py)\<close>

text \<open>\<open>s.rstrip('/')\<close>: every trailing slash goes.\<close>

definition rstrip_slash :: "string \<Rightarrow> string" where
  "rstrip_slash s = rev (dropWhile (\<lambda>c. c = CHR ''/'') (rev s))"

text \<open>
  \<open>re.match(r'(https?://[^/]+)', s)\<close>, group 1: the scheme and the longest run of
  characters other than \<open>/\<close> after it, which must not be empty.
\<close>

definition origin_after :: "nat \<Rightarrow> string \<Rightarrow> string option" where
  "origin_after n s =
     (let host = takeWhile (\<lambda>c. c \<noteq> CHR ''/'') (drop n s) in
      if host = [] then None else Some (take n s @ host))"

definition match_origin :: "string \<Rightarrow> string option" where
  "match_origin s =
     (if starts_with ''https://'' s then origin_after 8 s
      else if starts_with ''http://'' s then origin_after 7 s
      else None)"

definition get_shopify_json_url :: "string \<Rightarrow> string" where
  "get_shopify_json_url base_url =
     (let base = rstrip_slash base_url in
      if contains ''/collections/'' base then base @ ''/products.json?limit=250''
      else case match_origin base of
             Some domain \<Rightarrow> domain @ ''/products.json?limit=250''
           | None \<Rightarrow> base @ ''/products.json?limit=250'')"

text \<open>The candidate endpoints that \<open>scrape_shopify\<close> tries in order.\<close>

definition shopify_endpoints :: "string \<Rightarrow> string list" where
  "shopify_endpoints base_url =
     (let base_clean = rstrip_slash base_url in
      [base_clean @ ''/products.json?limit=250'']
      @ (if contains ''/collections/'' base_clean
         then [base_clean @ ''/products.json?limit=250'']
              @ (case match_origin base_clean of
                   Some domain \<Rightarrow> [domain @ ''/products.json?limit=250'']
                 | None \<Rightarrow> [])
         else []))"

section \<open>Shopify strategy (strategies/shopify.py, scrape_shopify)\<close>

text \<open>\<open>x[0]\<close>: the first element of a list, the first character of a string.\<close>

fun py_first :: "jval \<Rightarrow> py_error + jval" where
  "py_first (JList (x # xs)) = Inr x"
| "py_first (JList []) = Inl IndexError"
| "py_first (JStr (c # cs)) = Inr (JStr [c])"
| "py_first (JStr []) = Inl IndexError"
| "py_first (JObj kvs) = Inl KeyError"
| "py_first _ = Inl TypeError"

text \<open>
  \<open>x[:n]\<close> on a list or a string; any other object raises (TypeError up to Python 3.11,
  for a dict KeyError from 3.12 on: the handler around the loop catches both alike).
\<close>

fun py_slice :: "nat \<Rightarrow> jval \<Rightarrow> py_error + jval" where
  "py_slice n (JList xs) = Inr (JList (take n xs))"
| "py_slice n (JStr s) = Inr (JStr (take n s))"
| "py_slice n _ = Inl TypeError"

text \<open>\<open>s.split(c)\<close> for a separator of one character, and \<open>s.strip()\<close>.\<close>

fun split_on :: "char \<Rightarrow> string \<Rightarrow> string list" where
  "split_on c [] = [[]]"
| "split_on c (x # xs) =
     (if x = c then [] # split_on c xs
      else (case split_on c xs of w # ws \<Rightarrow> (x # w) # ws | [] \<Rightarrow> [[x]]))"

definition strip :: "string \<Rightarrow> string" where
  "strip s = dropWhile is_space (rev (dropWhile is_space (rev s)))"

text \<open>\<open>s.split(sep)[0]\<close>: the part of \<open>s\<close> before the first occurrence of \<open>sep\<close>.\<close>

fun before_sep :: "string \<Rightarrow> string \<Rightarrow> string" where
  "before_sep sep [] = []"
| "before_sep sep (x # xs) = (if starts_with sep (x # xs) then [] else x # before_sep sep xs)"

text \<open>
  An f-string field: a string as it is, None and the booleans by their names; the text of
  any other object is left to the builtin \<open>str\<close>, the parameter \<open>py_str\<close>.
\<close>

fun fmt :: "(jval \<Rightarrow> string) \<Rightarrow> jval \<Rightarrow> string" where
  "fmt py_str (JStr s) = s"
| "fmt py_str JNull = ''None''"
| "fmt py_str (JBool b) = (if b then ''True'' else ''False'')"
| "fmt py_str v = py_str v"

text \<open>\<open>images[0].get("src") if images else None\<close>.\<close>

definition first_image :: "jval \<Rightarrow> py_error + jval" where
  "first_image p =
     bind (py_get p ''images'' (JList [])) (\<lambda>images.
       if truthy images
       then bind (py_first images) (\<lambda>image. py_get image ''src'' JNull)
       else Inr JNull)"

text \<open>
  The price of the first variant. The builtin \<open>float\<close> is the parameter \<open>py_float\<close>; only
  its ValueError is caught here.
\<close>

definition first_price :: "(jval \<Rightarrow> py_error + jval) \<Rightarrow> jval \<Rightarrow> py_error + jval" where
  "first_price py_float p =
     bind (py_get p ''variants'' (JList [])) (\<lambda>variants.
       if truthy variants
       then bind (py_first variants) (\<lambda>variant.
            bind (py_get variant ''price'' JNull) (\<lambda>price_str.
              if truthy price_str
              then (case py_float price_str of
                      Inl err \<Rightarrow> (if err = ValueError then Inr JNull else Inl err)
                    | Inr price \<Rightarrow> Inr price)
              else Inr JNull))
       else Inr JNull)"

text \<open>The detectors concatenate their arguments with \<open>+\<close>, which wants strings.\<close>

fun detect_type_of :: "jval \<Rightarrow> jval \<Rightarrow> py_error + string" where
  "detect_type_of (JStr title) (JStr product_type) = Inr (detect_product_type title product_type)"
| "detect_type_of _ _ = Inl TypeError"

fun detect_color_of :: "jval \<Rightarrow> py_error + string \<times> string" where
  "detect_color_of (JStr title) = Inr (detect_color title [])"
| "detect_color_of _ = Inl TypeError"

text \<open>\<open>tags\<close>, split at the commas when the API gives one string.\<close>

fun split_tags :: "jval \<Rightarrow> jval" where
  "split_tags (JStr s) = JList (map (\<lambda>t. JStr (strip t)) (split_on CHR '','' s))"
| "split_tags tags = tags"

text \<open>
  The body of the loop over the products of one response: the record appended to
  \<open>results\<close>. No test of the title stands between reading it and the append.
\<close>

definition shopify_record ::
  "(jval \<Rightarrow> py_error + jval) \<Rightarrow> (jval \<Rightarrow> string) \<Rightarrow> string \<Rightarrow> string \<Rightarrow> jval \<Rightarrow> py_error + jval"
where
  "shopify_record py_float py_str brand base_clean p =
     bind (py_get p ''title'' (JStr [])) (\<lambda>title.
     bind (py_get p ''product_type'' (JStr [])) (\<lambda>product_type.
     bind (first_image p) (\<lambda>image_url.
     bind (first_price py_float p) (\<lambda>price.
     bind (detect_type_of title product_type) (\<lambda>material_type.
     bind (detect_color_of title) (\<lambda>(color_hex, color_name).
     bind (py_get p ''tags'' (JList [])) (\<lambda>tags0.
       let tags = split_tags tags0 in
     bind (if truthy tags then py_slice 5 tags else Inr (JList [JStr material_type])) (\<lambda>tags5.
     bind (py_get p ''body_html'' JNull) (\<lambda>body.
     bind (if truthy body then py_slice 200 body else Inr JNull) (\<lambda>description.
     bind (py_get p ''handle'' JNull) (\<lambda>handle.
       Inr (JObj
         [(''brand'', JStr brand),
          (''name'', title),
          (''type'', JStr material_type),
          (''image'', image_url),
          (''color'', JStr color_hex),
          (''color_name'', JStr color_name),
          (''price'', price),
          (''tags'', tags5),
          (''description'', description),
          (''url'', JStr (before_sep ''/collections'' base_clean @ ''/products/''
                           @ fmt py_str handle)),
          (''fuente_datos'', JStr ''shopify_api'')]))))))))))))"

text \<open>
  What \<open>requests.get\<close> gives for an address: no answer (it raised), or a status code with
  the parsed body, None when \<open>response.json()\<close> raises.
\<close>

datatype http_result = Failed | Response int "jval option"

text \<open>
  One pass of the loop over the endpoints: the batch to return, or None where the loop
  goes on to the next endpoint (\<open>continue\<close>, also from the handler).
\<close>

definition endpoint_batch ::
  "(jval \<Rightarrow> py_error + jval) \<Rightarrow> (jval \<Rightarrow> string) \<Rightarrow> string \<Rightarrow> string \<Rightarrow> http_result
     \<Rightarrow> jval list option"
where
  "endpoint_batch py_float py_str brand base_clean answer =
     (case answer of
        Failed \<Rightarrow> None
      | Response status_code body \<Rightarrow>
          if status_code \<noteq> 200 then None
          else (case body of
                  None \<Rightarrow> None
                | Some data \<Rightarrow>
                    (case py_get data ''products'' (JList []) of
                       Inl err \<Rightarrow> None
                     | Inr products \<Rightarrow>
                         if \<not> truthy products then None
                         else (case bind (py_iter products)
                                      (map_err (shopify_record py_float py_str brand base_clean)) of
                                 Inl err \<Rightarrow> None
                               | Inr results \<Rightarrow> if results \<noteq> [] then Some results else None))))"

fun try_endpoints ::
  "(string \<Rightarrow> http_result) \<Rightarrow> (jval \<Rightarrow> py_error + jval) \<Rightarrow> (jval \<Rightarrow> string) \<Rightarrow> string \<Rightarrow> string
     \<Rightarrow> string list \<Rightarrow> jval list"
where
  "try_endpoints fetch py_float py_str brand base_clean [] = []"
| "try_endpoints fetch py_float py_str brand base_clean (json_url # rest) =
     (case endpoint_batch py_float py_str brand base_clean (fetch json_url) of
        Some results \<Rightarrow> results
      | None \<Rightarrow> try_endpoints fetch py_float py_str brand base_clean rest)"

text \<open>
  \<open>scrape_shopify(base_url, brand, product_category)\<close>, with the web as the parameter
  \<open>fetch\<close>. The category is accepted and not used.
\<close>

definition scrape_shopify ::
  "(string \<Rightarrow> http_result) \<Rightarrow> (jval \<Rightarrow> py_error + jval) \<Rightarrow> (jval \<Rightarrow> string) \<Rightarrow> string \<Rightarrow> string
     \<Rightarrow> string \<Rightarrow> jval list"
where
  "scrape_shopify fetch py_float py_str base_url brand product_category =
     try_endpoints fetch py_float py_str brand (rstrip_slash base_url) (shopify_endpoints base_url)"

section \<open>Properties of the validation engine\<close>

lemma abs_filament_resin:
  "validate_product (JObj [(''brand'', JStr ''eSUN''), (''name'', JStr ''Standard ABS Filament'')])
     ''resin'' = Inr False"
  by code_simp

lemma abs_filament_filament:
  "validate_product (JObj [(''brand'', JStr ''eSUN''), (''name'', JStr ''Standard ABS Filament'')])
     ''filament'' = Inr True"
  by code_simp

lemma abs_like_resin:
  "validate_product (JObj [(''brand'', JStr ''eSUN''), (''name'', JStr ''ABS-Like Resin'')])
     ''resin'' = Inr True"
  by code_simp

lemma abs_like_filament:
  "validate_product (JObj [(''brand'', JStr ''eSUN''), (''name'', JStr ''ABS-Like Resin'')])
     ''filament'' = Inr False"
  by code_simp

text \<open>
  C1. A record named "Standard ABS Filament" without tags is rejected for the resin
  catalog and accepted for the filament catalog; a record named "ABS-Like Resin" without
  tags is accepted for the resin catalog and rejected for the filament catalog.
\<close>

theorem validate_abs_category_asymmetry:
  "validate_product (JObj [(''brand'', JStr ''eSUN''), (''name'', JStr ''Standard ABS Filament'')])
     ''resin'' = Inr False
   \<and> validate_product (JObj [(''brand'', JStr ''eSUN''), (''name'', JStr ''Standard ABS Filament'')])
     ''filament'' = Inr True
   \<and> validate_product (JObj [(''brand'', JStr ''eSUN''), (''name'', JStr ''ABS-Like Resin'')])
     ''resin'' = Inr True
   \<and> validate_product (JObj [(''brand'', JStr ''eSUN''), (''name'', JStr ''ABS-Like Resin'')])
     ''filament'' = Inr False"
  using abs_filament_resin abs_filament_filament abs_like_resin abs_like_filament
  by blast

section \<open>Properties of the merge engine\<close>

lemma is_str_iff: "is_str v \<longleftrightarrow> (\<exists>s. v = JStr s)"
  by (cases v) auto

lemma is_str_list_iff: "is_str_list v \<longleftrightarrow> (\<exists>ts. v = JList ts \<and> list_all is_str ts)"
  by (cases v) auto

lemma catalog_entry_iff:
  "catalog_entry e \<longleftrightarrow>
     (\<exists>kvs. e = JObj kvs \<and> is_str (opt_get kvs ''brand'') \<and> is_str (opt_get kvs ''name'')
        \<and> is_str_list (opt_get kvs ''tags''))"
  by (cases e) auto

lemma py_get_opt: "py_get (JObj kvs) k d = Inr (get_or kvs k d)"
  by simp

lemma get_or_is_str: "is_str (opt_get kvs k) \<Longrightarrow> get_or kvs k d = opt_get kvs k"
  by (auto simp: get_or_def opt_get_def split: option.splits)

lemma get_or_is_str_list: "is_str_list (opt_get kvs k) \<Longrightarrow> get_or kvs k d = opt_get kvs k"
  by (auto simp: get_or_def opt_get_def split: option.splits)

lemma identity_key_entry:
  assumes "catalog_entry e"
  shows "\<exists>k. identity_key e = Inr k"
proof -
  from assms obtain kvs b n where e: "e = JObj kvs"
    and b: "opt_get kvs ''brand'' = JStr b" "is_str (opt_get kvs ''brand'')"
    and n: "opt_get kvs ''name'' = JStr n" "is_str (opt_get kvs ''name'')"
    by (auto simp: catalog_entry_iff is_str_iff)
  show ?thesis
    by (simp add: identity_key_def e py_get_opt get_or_is_str b n bind_def)
qed

lemma map_err_lower_strs:
  "list_all is_str ts \<Longrightarrow> \<exists>ls. map_err py_lower ts = Inr ls"
  by (induction ts) (auto simp: bind_def is_str_iff)

lemma validate_entry_total:
  assumes "catalog_entry e"
  shows "\<exists>ok. validate_product e category = Inr ok"
proof -
  from assms obtain kvs n ts where e: "e = JObj kvs"
    and n: "opt_get kvs ''name'' = JStr n" "is_str (opt_get kvs ''name'')"
    and t: "opt_get kvs ''tags'' = JList ts" "is_str_list (opt_get kvs ''tags'')"
      "list_all is_str ts"
    by (auto simp: catalog_entry_iff is_str_iff is_str_list_iff)
  from t(3) obtain ls where ls: "map_err py_lower ts = Inr ls"
    using map_err_lower_strs by blast
  from n(1) have rj: "reject (JObj kvs) = Inr False"
    by (auto simp: opt_get_def split: option.splits)
  show ?thesis
    by (auto simp add: validate_product_def e get_or_is_str get_or_is_str_list n t
        bind_def ls rj Let_def simp del: reject.simps)
qed

lemma keep_valid_filter:
  "\<forall>e\<in>set xs. \<exists>ok. validate_product e category = Inr ok \<Longrightarrow>
   keep_valid category xs = Inr (filter (\<lambda>e. validate_product e category = Inr True) xs)"
  by (induction xs) (auto simp: bind_def)

lemma opt_get_update:
  "opt_get (AList.update k v al) k' = (if k' = k then v else opt_get al k')"
  by (simp add: opt_get_def update_conv')

lemma is_str_list_py_or:
  "is_str_list a \<Longrightarrow> is_str_list b \<Longrightarrow> is_str_list (py_or a b)"
  by (simp add: py_or_def)

lemma update_entry_entry:
  assumes "catalog_entry e" "catalog_entry item"
  shows "\<exists>e'. update_entry e item = Inr e' \<and> catalog_entry e' \<and> identity_key e' = identity_key e"
proof -
  from assms obtain kvs ivs where e: "e = JObj kvs" and i: "item = JObj ivs"
    by (auto simp: catalog_entry_iff)
  from assms have t: "is_str_list (py_or (opt_get ivs ''tags'') (opt_get kvs ''tags''))"
    by (simp add: e i is_str_list_py_or)
  from assms(1) have bn: "is_str (opt_get kvs ''brand'')" "is_str (opt_get kvs ''name'')"
    by (simp_all add: e)
  show ?thesis
    using t bn
    by (simp add: e i opt_get_update identity_key_def py_get_opt get_or_is_str)
qed

lemma find_update_entries:
  assumes "\<forall>e\<in>set es. catalog_entry (fst e)" "catalog_entry item"
  shows "(Inr key \<notin> (\<lambda>e. identity_key (fst e)) ` set es \<and> find_update key item es = Inr None)
       \<or> (Inr key \<in> (\<lambda>e. identity_key (fst e)) ` set es
          \<and> (\<exists>es'. find_update key item es = Inr (Some es')
                \<and> map (\<lambda>e. identity_key (fst e)) es' = map (\<lambda>e. identity_key (fst e)) es
                \<and> (\<forall>e\<in>set es'. catalog_entry (fst e))))"
  using assms(1)
proof (induction es)
  case Nil
  then show ?case by simp
next
  case (Cons e es)
  from Cons.prems have ce: "catalog_entry (fst e)" by simp
  then obtain k where k: "identity_key (fst e) = Inr k"
    using identity_key_entry by blast
  show ?case
  proof (cases "k = key")
    case True
    from update_entry_entry[OF ce assms(2)] obtain e' where
      e': "update_entry (fst e) item = Inr e'" "catalog_entry e'"
        "identity_key e' = identity_key (fst e)"
      by blast
    with True k Cons.prems show ?thesis
      by (simp add: bind_def)
  next
    case False
    from Cons.IH Cons.prems
    have "(Inr key \<notin> (\<lambda>e. identity_key (fst e)) ` set es \<and> find_update key item es = Inr None)
       \<or> (Inr key \<in> (\<lambda>e. identity_key (fst e)) ` set es
          \<and> (\<exists>es'. find_update key item es = Inr (Some es')
                \<and> map (\<lambda>e. identity_key (fst e)) es' = map (\<lambda>e. identity_key (fst e)) es
                \<and> (\<forall>e\<in>set es'. catalog_entry (fst e))))"
      by simp
    then show ?thesis
    proof
      assume "Inr key \<notin> (\<lambda>e. identity_key (fst e)) ` set es \<and> find_update key item es = Inr None"
      with False k show ?thesis by (simp add: bind_def)
    next
      assume "Inr key \<in> (\<lambda>e. identity_key (fst e)) ` set es
          \<and> (\<exists>es'. find_update key item es = Inr (Some es')
                \<and> map (\<lambda>e. identity_key (fst e)) es' = map (\<lambda>e. identity_key (fst e)) es
                \<and> (\<forall>e\<in>set es'. catalog_entry (fst e)))"
      with False k ce show ?thesis by (auto simp add: bind_def)
    qed
  qed
qed

lemma merge_item_entries:
  assumes "\<forall>e\<in>set es. catalog_entry (fst e)" "catalog_entry item"
  shows "\<exists>es'. merge_item i item es = Inr es'
           \<and> (\<forall>e\<in>set es'. catalog_entry (fst e))
           \<and> (distinct (map (\<lambda>e. identity_key (fst e)) es)
                \<longrightarrow> distinct (map (\<lambda>e. identity_key (fst e)) es'))"
proof -
  from assms(2) obtain key where key: "identity_key item = Inr key"
    using identity_key_entry by blast
  from find_update_entries[OF assms(1,2), of key] show ?thesis
  proof
    assume "Inr key \<notin> (\<lambda>e. identity_key (fst e)) ` set es \<and> find_update key item es = Inr None"
    with key assms show ?thesis
      by (auto simp add: merge_item_def bind_def)
  next
    assume "Inr key \<in> (\<lambda>e. identity_key (fst e)) ` set es
          \<and> (\<exists>es'. find_update key item es = Inr (Some es')
                \<and> map (\<lambda>e. identity_key (fst e)) es' = map (\<lambda>e. identity_key (fst e)) es
                \<and> (\<forall>e\<in>set es'. catalog_entry (fst e)))"
    with key show ?thesis
      by (auto simp add: merge_item_def bind_def)
  qed
qed

lemma merge_loop_entries:
  assumes "\<forall>x\<in>set items. catalog_entry x" "\<forall>e\<in>set es. catalog_entry (fst e)"
  shows "\<exists>es'. merge_loop i items es = (es', None)
           \<and> (\<forall>e\<in>set es'. catalog_entry (fst e))
           \<and> (distinct (map (\<lambda>e. identity_key (fst e)) es)
                \<longrightarrow> distinct (map (\<lambda>e. identity_key (fst e)) es'))"
  using assms
proof (induction items arbitrary: i es)
  case Nil
  then show ?case by simp
next
  case (Cons item items)
  from Cons.prems have "catalog_entry item" by simp
  from merge_item_entries[OF Cons.prems(2) this, of i]
  obtain es1 where es1: "merge_item i item es = Inr es1"
    "\<forall>e\<in>set es1. catalog_entry (fst e)"
    "distinct (map (\<lambda>e. identity_key (fst e)) es)
       \<longrightarrow> distinct (map (\<lambda>e. identity_key (fst e)) es1)"
    by blast
  from Cons.prems(1) have "\<forall>x\<in>set items. catalog_entry x" by simp
  from Cons.IH[OF this es1(2), of "Suc i"] es1(1,3) show ?case by auto
qed

lemma merge_loaded_entries:
  assumes "\<forall>x\<in>set new_data. catalog_entry x" "\<forall>x\<in>set existing. catalog_entry x"
  shows "\<exists>merged. merge_loop 0 new_data (map (\<lambda>e. (e, None)) existing) = (merged, None)
           \<and> (\<forall>e\<in>set merged. catalog_entry (fst e))
           \<and> (distinct (map identity_key existing)
                \<longrightarrow> distinct (map identity_key (map fst merged)))
           \<and> merge_with_existing new_data filepath (Loaded existing)
               = filter (\<lambda>e. validate_product e (category_of filepath) = Inr True) (map fst merged)"
proof -
  have a: "\<forall>e\<in>set (map (\<lambda>e. (e, None)) existing). catalog_entry (fst e)"
    using assms(2) by simp
  from merge_loop_entries[OF assms(1) a, of 0] obtain merged where
    m: "merge_loop 0 new_data (map (\<lambda>e. (e, None)) existing) = (merged, None)"
      "\<forall>e\<in>set merged. catalog_entry (fst e)"
      "distinct (map (\<lambda>e. identity_key (fst e)) (map (\<lambda>e. (e, None :: nat option)) existing))
         \<longrightarrow> distinct (map (\<lambda>e. identity_key (fst e)) merged)"
    by blast
  have "\<forall>e\<in>set (map fst merged). \<exists>ok. validate_product e (category_of filepath) = Inr ok"
    using m(2) validate_entry_total by auto
  then have "keep_valid (category_of filepath) (map fst merged)
      = Inr (filter (\<lambda>e. validate_product e (category_of filepath) = Inr True) (map fst merged))"
    by (rule keep_valid_filter)
  with m show ?thesis
    by (simp add: merge_with_existing_def comp_def)
qed

lemma merge_loop_appends:
  assumes "\<forall>x\<in>set items. catalog_entry x" "\<forall>e\<in>set es. catalog_entry (fst e)"
    "distinct (map identity_key (map fst es @ items))"
  shows "\<exists>es'. merge_loop i items es = (es', None) \<and> map fst es' = map fst es @ items"
  using assms
proof (induction items arbitrary: i es)
  case Nil
  then show ?case by simp
next
  case (Cons item items)
  from Cons.prems have ci: "catalog_entry item" by simp
  then obtain key where key: "identity_key item = Inr key"
    using identity_key_entry by blast
  from Cons.prems(3) key have "Inr key \<notin> (\<lambda>e. identity_key (fst e)) ` set es"
    by auto
  with find_update_entries[OF Cons.prems(2) ci, of key]
  have "find_update key item es = Inr None" by blast
  with key have mi: "merge_item i item es = Inr (es @ [(item, Some i)])"
    by (simp add: merge_item_def bind_def)
  have a: "\<forall>x\<in>set items. catalog_entry x" using Cons.prems(1) by simp
  have b: "\<forall>e\<in>set (es @ [(item, Some i)]). catalog_entry (fst e)"
    using Cons.prems(2) ci by auto
  have c: "distinct (map identity_key (map fst (es @ [(item, Some i)]) @ items))"
    using Cons.prems(3) by simp
  from Cons.IH[OF a b c, of "Suc i"] mi show ?case by simp
qed




text \<open>
  C3 (amended). With the catalog file present and readable and all records being catalog
  entries, every entry of the returned sequence passes validation for the category of the
  file, and no entry that fails it is in the output.
\<close>

theorem merge_output_passes_validation:
  assumes "\<forall>x\<in>set new_data. catalog_entry x" "\<forall>x\<in>set existing. catalog_entry x"
  shows "(\<forall>e\<in>set (merge_with_existing new_data filepath (Loaded existing)).
            validate_product e (category_of filepath) = Inr True)
       \<and> (\<forall>e. validate_product e (category_of filepath) \<noteq> Inr True \<longrightarrow>
            e \<notin> set (merge_with_existing new_data filepath (Loaded existing)))"
  using merge_loaded_entries[OF assms, of filepath]
  by auto

text \<open>
  C8 (amended). With the catalog file missing or unreadable the merge returns the new
  records as they are. That equals the merge against a present empty catalog when the
  new records are catalog entries with pairwise distinct keys that all pass validation.
\<close>

theorem merge_without_catalog_file:
  "merge_with_existing new_data filepath Missing = new_data
   \<and> merge_with_existing new_data filepath Unreadable = new_data
   \<and> ((\<forall>x\<in>set new_data. catalog_entry x
          \<and> validate_product x (category_of filepath) = Inr True)
        \<and> distinct (map identity_key new_data)
        \<longrightarrow> merge_with_existing new_data filepath (Loaded []) = new_data)"
proof -
  have "merge_with_existing new_data filepath (Loaded []) = new_data"
    if h: "\<forall>x\<in>set new_data. catalog_entry x
          \<and> validate_product x (category_of filepath) = Inr True"
      and d: "distinct (map identity_key new_data)"
  proof -
    have a: "\<forall>x\<in>set new_data. catalog_entry x" using h by simp
    have b: "\<forall>e\<in>set ([] :: entry list). catalog_entry (fst e)" by simp
    have c: "distinct (map identity_key (map fst ([] :: entry list) @ new_data))"
      using d by simp
    from merge_loop_appends[OF a b c, of 0] obtain es' where
      es: "merge_loop 0 new_data [] = (es', None)" "map fst es' = new_data"
      by auto
    have "\<forall>e\<in>set new_data. \<exists>ok. validate_product e (category_of filepath) = Inr ok"
      using h by auto
    then have "keep_valid (category_of filepath) new_data
        = Inr (filter (\<lambda>e. validate_product e (category_of filepath) = Inr True) new_data)"
      by (rule keep_valid_filter)
    moreover have "filter (\<lambda>e. validate_product e (category_of filepath) = Inr True) new_data = new_data"
      using h by simp
    ultimately show ?thesis
      using es by (simp add: merge_with_existing_def)
  qed
  then show ?thesis
    by (simp add: merge_with_existing_def)
qed

lemma keep_valid_raises:
  "\<exists>e\<in>set xs. \<exists>err. validate_product e category = Inl err \<Longrightarrow>
   \<exists>err. keep_valid category xs = Inl err"
proof (induction xs)
  case Nil
  then show ?case by simp
next
  case (Cons x xs)
  show ?case
  proof (cases "validate_product x category")
    case (Inl err)
    then show ?thesis by (simp add: bind_def)
  next
    case (Inr ok)
    with Cons.prems have "\<exists>e\<in>set xs. \<exists>err. validate_product e category = Inl err"
      by auto
    from Cons.IH[OF this] obtain err where "keep_valid category xs = Inl err" by blast
    with Inr show ?thesis by (simp add: bind_def)
  qed
qed

lemma write_back_file_entries:
  "write_back (map (\<lambda>e. (e, None)) existing) new_data = new_data"
  by (induction existing) simp_all

lemma merge_empty_verdicts:
  assumes "\<forall>e\<in>set xs. \<exists>ok. validate_product e (category_of filepath) = Inr ok"
  shows "merge_with_existing [] filepath (Loaded xs)
           = filter (\<lambda>e. validate_product e (category_of filepath) = Inr True) xs"
  using assms by (simp add: merge_with_existing_def keep_valid_filter comp_def)

lemma merge_empty_raises:
  assumes "\<not> (\<forall>e\<in>set xs. \<exists>ok. validate_product e (category_of filepath) = Inr ok)"
  shows "merge_with_existing [] filepath (Loaded xs) = []"
proof -
  from assms obtain e where e: "e \<in> set xs"
    "\<forall>ok. validate_product e (category_of filepath) \<noteq> Inr ok"
    by blast
  then obtain err where "validate_product e (category_of filepath) = Inl err"
    by (cases "validate_product e (category_of filepath)") auto
  with e(1) have "\<exists>e\<in>set xs. \<exists>err. validate_product e (category_of filepath) = Inl err"
    by blast
  from keep_valid_raises[OF this] obtain err where
    k: "keep_valid (category_of filepath) xs = Inl err" by blast
  then show ?thesis
    by (simp add: merge_with_existing_def comp_def write_back_file_entries)
qed

text \<open>
  C4 (amended). Merging no new records into a catalog on whose entries validation gives
  a verdict returns the catalog without exactly the entries that fail validation. When
  validation raises on some entry the merge returns the empty list. In both cases merging
  no new records into the result returns it unchanged.
\<close>

theorem merge_empty_idempotent:
  "((\<forall>e\<in>set existing. \<exists>ok. validate_product e (category_of filepath) = Inr ok) \<longrightarrow>
      merge_with_existing [] filepath (Loaded existing)
        = filter (\<lambda>e. validate_product e (category_of filepath) = Inr True) existing)
   \<and> (\<not> (\<forall>e\<in>set existing. \<exists>ok. validate_product e (category_of filepath) = Inr ok) \<longrightarrow>
      merge_with_existing [] filepath (Loaded existing) = [])
   \<and> merge_with_existing [] filepath
        (Loaded (merge_with_existing [] filepath (Loaded existing)))
        = merge_with_existing [] filepath (Loaded existing)"
proof -
  have idem: "merge_with_existing [] filepath
        (Loaded (merge_with_existing [] filepath (Loaded existing)))
        = merge_with_existing [] filepath (Loaded existing)"
  proof (cases "\<forall>e\<in>set existing. \<exists>ok. validate_product e (category_of filepath) = Inr ok")
    case True
    have 1: "merge_with_existing [] filepath (Loaded existing)
        = filter (\<lambda>e. validate_product e (category_of filepath) = Inr True) existing"
      using True by (rule merge_empty_verdicts)
    have "\<forall>e\<in>set (filter (\<lambda>e. validate_product e (category_of filepath) = Inr True) existing).
        \<exists>ok. validate_product e (category_of filepath) = Inr ok"
      by auto
    from merge_empty_verdicts[OF this] 1 show ?thesis by simp
  next
    case False
    then have 1: "merge_with_existing [] filepath (Loaded existing) = []"
      by (rule merge_empty_raises)
    have "\<forall>e\<in>set ([] :: jval list). \<exists>ok. validate_product e (category_of filepath) = Inr ok"
      by simp
    from merge_empty_verdicts[OF this] 1 show ?thesis by simp
  qed
  from idem merge_empty_verdicts[of existing filepath] merge_empty_raises[of existing filepath]
  show ?thesis by blast
qed

text \<open>
  Counterexample to C4 as written: beside an entry whose name is null, on which validation
  raises, an entry that passes validation is removed as well.
\<close>

theorem merge_empty_drops_valid_entry_counterexample:
  "merge_with_existing [] ''resins_db.json''
     (Loaded [JObj [(''brand'', JStr ''Anycubic''), (''name'', JStr ''Standard Resin''),
                    (''tags'', JList [JStr ''Standard''])],
              JObj [(''brand'', JStr ''eSUN''), (''name'', JNull)]]) = []
   \<and> validate_product
       (JObj [(''brand'', JStr ''Anycubic''), (''name'', JStr ''Standard Resin''),
              (''tags'', JList [JStr ''Standard''])])
       (category_of ''resins_db.json'') = Inr True
   \<and> validate_product (JObj [(''brand'', JStr ''eSUN''), (''name'', JNull)])
       (category_of ''resins_db.json'') = Inl AttributeError"
  by code_simp

text \<open>Witness for C4: a catalog of one resin and one filament, merged twice with no new records, and a catalog with an entry whose name is null.\<close>

theorem merge_empty_idempotent_witness:
  "validate_product
      (JObj [(''brand'', JStr ''Anycubic''), (''name'', JStr ''Standard Resin''),
             (''tags'', JList [JStr ''Standard''])])
      (category_of ''resins_db.json'') = Inr True
   \<and> validate_product
      (JObj [(''brand'', JStr ''eSUN''), (''name'', JStr ''PLA Filament''),
             (''tags'', JList [JStr ''PLA''])])
      (category_of ''resins_db.json'') = Inr False
   \<and> merge_with_existing [] ''resins_db.json''
        (Loaded [JObj [(''brand'', JStr ''Anycubic''), (''name'', JStr ''Standard Resin''),
                       (''tags'', JList [JStr ''Standard''])],
                 JObj [(''brand'', JStr ''eSUN''), (''name'', JStr ''PLA Filament''),
                       (''tags'', JList [JStr ''PLA''])]])
      = [JObj [(''brand'', JStr ''Anycubic''), (''name'', JStr ''Standard Resin''),
               (''tags'', JList [JStr ''Standard''])]]
   \<and> merge_with_existing [] ''resins_db.json''
        (Loaded (merge_with_existing [] ''resins_db.json''
          (Loaded [JObj [(''brand'', JStr ''Anycubic''), (''name'', JStr ''Standard Resin''),
                         (''tags'', JList [JStr ''Standard''])],
                   JObj [(''brand'', JStr ''eSUN''), (''name'', JStr ''PLA Filament''),
                         (''tags'', JList [JStr ''PLA''])]])))
      = [JObj [(''brand'', JStr ''Anycubic''), (''name'', JStr ''Standard Resin''),
               (''tags'', JList [JStr ''Standard''])]]
   \<and> \<not> (\<exists>ok. validate_product (JObj [(''brand'', JStr ''eSUN''), (''name'', JNull)])
          (category_of ''resins_db.json'') = Inr ok)
   \<and> merge_with_existing [] ''resins_db.json''
        (Loaded [JObj [(''brand'', JStr ''Anycubic''), (''name'', JStr ''Standard Resin''),
                       (''tags'', JList [JStr ''Standard''])],
                 JObj [(''brand'', JStr ''eSUN''), (''name'', JNull)]]) = []"
proof -
  let ?g = "JObj [(''brand'', JStr ''Anycubic''), (''name'', JStr ''Standard Resin''),
                    (''tags'', JList [JStr ''Standard''])]"
  let ?b = "JObj [(''brand'', JStr ''eSUN''), (''name'', JStr ''PLA Filament''),
                    (''tags'', JList [JStr ''PLA''])]"
  let ?n = "JObj [(''brand'', JStr ''eSUN''), (''name'', JNull)]"
  have g: "validate_product ?g (category_of ''resins_db.json'') = Inr True" by code_simp
  have b: "validate_product ?b (category_of ''resins_db.json'') = Inr False" by code_simp
  have n: "validate_product ?n (category_of ''resins_db.json'') = Inl AttributeError"
    by code_simp
  have h: "\<forall>e\<in>set [?g, ?b]. \<exists>ok. validate_product e (category_of ''resins_db.json'') = Inr ok"
    using g b by auto
  have f: "filter (\<lambda>e. validate_product e (category_of ''resins_db.json'') = Inr True) [?g, ?b]
      = [?g]"
    using g b by simp
  note m = merge_empty_idempotent[of "[?g, ?b]" "''resins_db.json''"]
  from m h have "merge_with_existing [] ''resins_db.json'' (Loaded [?g, ?b])
      = filter (\<lambda>e. validate_product e (category_of ''resins_db.json'') = Inr True) [?g, ?b]"
    by blast
  then have e1: "merge_with_existing [] ''resins_db.json'' (Loaded [?g, ?b]) = [?g]"
    using f by (rule trans)
  from m have "merge_with_existing [] ''resins_db.json''
      (Loaded (merge_with_existing [] ''resins_db.json'' (Loaded [?g, ?b])))
      = merge_with_existing [] ''resins_db.json'' (Loaded [?g, ?b])"
    by blast
  then have e2: "merge_with_existing [] ''resins_db.json''
      (Loaded (merge_with_existing [] ''resins_db.json'' (Loaded [?g, ?b]))) = [?g]"
    using e1 by (rule trans)
  have nn: "\<not> (\<exists>ok. validate_product ?n (category_of ''resins_db.json'') = Inr ok)"
    using n by simp
  then have nh: "\<not> (\<forall>e\<in>set [?g, ?n].
      \<exists>ok. validate_product e (category_of ''resins_db.json'') = Inr ok)"
    by simp
  from merge_empty_idempotent[of "[?g, ?n]" "''resins_db.json''"] nh
  have e3: "merge_with_existing [] ''resins_db.json'' (Loaded [?g, ?n]) = []"
    by blast
  from g b e1 e2 nn e3 show ?thesis by blast
qed



text \<open>
  Counterexample to C3 as written: with the file missing the new records come back
  unvalidated.
\<close>

theorem merge_missing_file_unvalidated_counterexample:
  "JObj [(''brand'', JStr ''eSUN''), (''name'', JStr ''PLA Filament''),
         (''tags'', JList [JStr ''PLA''])]
     \<in> set (merge_with_existing
         [JObj [(''brand'', JStr ''eSUN''), (''name'', JStr ''PLA Filament''),
                (''tags'', JList [JStr ''PLA''])]]
         ''resins_db.json'' Missing)
   \<and> validate_product
       (JObj [(''brand'', JStr ''eSUN''), (''name'', JStr ''PLA Filament''),
              (''tags'', JList [JStr ''PLA''])])
       (category_of ''resins_db.json'') = Inr False"
  by code_simp

text \<open>Witness for C3: a filament arriving for the resin catalog is dropped, the resin entry stays.\<close>

theorem merge_output_passes_validation_witness:
  "catalog_entry (JObj [(''brand'', JStr ''eSUN''), (''name'', JStr ''PLA Filament''),
                    (''tags'', JList [JStr ''PLA''])])
   \<and> catalog_entry (JObj [(''brand'', JStr ''Anycubic''), (''name'', JStr ''Standard Resin''),
                       (''tags'', JList [JStr ''Standard''])])
   \<and> merge_with_existing
        [JObj [(''brand'', JStr ''eSUN''), (''name'', JStr ''PLA Filament''),
               (''tags'', JList [JStr ''PLA''])]]
        ''resins_db.json''
        (Loaded [JObj [(''brand'', JStr ''Anycubic''), (''name'', JStr ''Standard Resin''),
                       (''tags'', JList [JStr ''Standard''])]])
      = [JObj [(''brand'', JStr ''Anycubic''), (''name'', JStr ''Standard Resin''),
               (''tags'', JList [JStr ''Standard''])]]
   \<and> list_all (\<lambda>e. validate_product e (category_of ''resins_db.json'') = Inr True)
        (merge_with_existing
          [JObj [(''brand'', JStr ''eSUN''), (''name'', JStr ''PLA Filament''),
                 (''tags'', JList [JStr ''PLA''])]]
          ''resins_db.json''
          (Loaded [JObj [(''brand'', JStr ''Anycubic''), (''name'', JStr ''Standard Resin''),
                         (''tags'', JList [JStr ''Standard''])]]))"
proof -
  let ?n = "JObj [(''brand'', JStr ''eSUN''), (''name'', JStr ''PLA Filament''),
                    (''tags'', JList [JStr ''PLA''])]"
  let ?e = "JObj [(''brand'', JStr ''Anycubic''), (''name'', JStr ''Standard Resin''),
                       (''tags'', JList [JStr ''Standard''])]"
  have cn: "catalog_entry ?n" by code_simp
  have ce: "catalog_entry ?e" by code_simp
  have h1: "\<forall>x\<in>set [?n]. catalog_entry x" using cn by simp
  have h2: "\<forall>x\<in>set [?e]. catalog_entry x" using ce by simp
  have v: "merge_with_existing [?n] ''resins_db.json'' (Loaded [?e]) = [?e]" by code_simp
  from merge_output_passes_validation[OF h1 h2, of "''resins_db.json''", THEN conjunct1]
  have "list_all (\<lambda>e. validate_product e (category_of ''resins_db.json'') = Inr True)
      (merge_with_existing [?n] ''resins_db.json'' (Loaded [?e]))"
    unfolding list_all_iff .
  with cn ce v show ?thesis by blast
qed

text \<open>
  Counterexample to C8 as written: a new record that fails validation is returned when
  the file is missing and dropped by the merge against an empty catalog.
\<close>

theorem merge_missing_file_not_full_merge_counterexample:
  "merge_with_existing
     [JObj [(''brand'', JStr ''eSUN''), (''name'', JStr ''PLA Filament''),
            (''tags'', JList [JStr ''PLA''])]] ''resins_db.json'' Missing
   \<noteq> merge_with_existing
     [JObj [(''brand'', JStr ''eSUN''), (''name'', JStr ''PLA Filament''),
            (''tags'', JList [JStr ''PLA''])]] ''resins_db.json'' (Loaded [])"
  by code_simp

text \<open>Witness for C8: one valid new record, with the file missing and against an empty catalog.\<close>

theorem merge_without_catalog_file_witness:
  "catalog_entry (JObj [(''brand'', JStr ''Anycubic''), (''name'', JStr ''Standard Resin''),
                     (''tags'', JList [JStr ''Standard''])])
   \<and> validate_product
        (JObj [(''brand'', JStr ''Anycubic''), (''name'', JStr ''Standard Resin''),
               (''tags'', JList [JStr ''Standard''])])
        (category_of ''resins_db.json'') = Inr True
   \<and> distinct (map identity_key
          [JObj [(''brand'', JStr ''Anycubic''), (''name'', JStr ''Standard Resin''),
                 (''tags'', JList [JStr ''Standard''])]])
   \<and> merge_with_existing
        [JObj [(''brand'', JStr ''Anycubic''), (''name'', JStr ''Standard Resin''),
               (''tags'', JList [JStr ''Standard''])]] ''resins_db.json'' (Loaded [])
      = [JObj [(''brand'', JStr ''Anycubic''), (''name'', JStr ''Standard Resin''),
               (''tags'', JList [JStr ''Standard''])]]
   \<and> merge_with_existing
        [JObj [(''brand'', JStr ''Anycubic''), (''name'', JStr ''Standard Resin''),
               (''tags'', JList [JStr ''Standard''])]] ''resins_db.json'' Missing
      = [JObj [(''brand'', JStr ''Anycubic''), (''name'', JStr ''Standard Resin''),
               (''tags'', JList [JStr ''Standard''])]]"
proof -
  let ?g = "JObj [(''brand'', JStr ''Anycubic''), (''name'', JStr ''Standard Resin''),
                    (''tags'', JList [JStr ''Standard''])]"
  have c: "catalog_entry ?g" by code_simp
  have v: "validate_product ?g (category_of ''resins_db.json'') = Inr True" by code_simp
  have d: "distinct (map identity_key [?g])" by code_simp
  have h: "(\<forall>x\<in>set [?g]. catalog_entry x
        \<and> validate_product x (category_of ''resins_db.json'') = Inr True)
     \<and> distinct (map identity_key [?g])"
    using c v d by simp
  from merge_without_catalog_file[of "[?g]" "''resins_db.json''"] h c v d
  show ?thesis by blast
qed

section \<open>Properties of the classification heuristics and of the Shopify endpoints\<close>

lemma rstrip_slash_trailing: "rstrip_slash (url @ ''/'') = rstrip_slash url"
  by (simp add: rstrip_slash_def)

lemma endpoint_collection:
  "get_shopify_json_url ''https://store.example.com/collections/resin''
     = ''https://store.example.com/collections/resin/products.json?limit=250''"
  by code_simp

lemma endpoint_store:
  "get_shopify_json_url ''https://store.example.com''
     = ''https://store.example.com/products.json?limit=250''"
  by code_simp

lemma endpoints_collection:
  "shopify_endpoints ''https://store.example.com/collections/resin''
     = [''https://store.example.com/collections/resin/products.json?limit=250'',
        ''https://store.example.com/collections/resin/products.json?limit=250'',
        ''https://store.example.com/products.json?limit=250'']"
  by code_simp

lemma endpoints_store:
  "shopify_endpoints ''https://store.example.com''
     = [''https://store.example.com/products.json?limit=250'']"
  by code_simp

text \<open>
  C9. For the collection URL the derived endpoint is the collection's
  \<open>products.json?limit=250\<close>, for the bare store URL it is the store's; a trailing slash
  on the input does not change the result. The endpoints that \<open>scrape_shopify\<close> tries
  start with the same address.
\<close>

theorem shopify_endpoint_derivation:
  "get_shopify_json_url ''https://store.example.com/collections/resin''
     = ''https://store.example.com/collections/resin/products.json?limit=250''
   \<and> get_shopify_json_url ''https://store.example.com''
     = ''https://store.example.com/products.json?limit=250''
   \<and> get_shopify_json_url (url @ ''/'') = get_shopify_json_url url
   \<and> shopify_endpoints ''https://store.example.com/collections/resin''
     = [''https://store.example.com/collections/resin/products.json?limit=250'',
        ''https://store.example.com/collections/resin/products.json?limit=250'',
        ''https://store.example.com/products.json?limit=250'']
   \<and> shopify_endpoints ''https://store.example.com''
     = [''https://store.example.com/products.json?limit=250'']
   \<and> shopify_endpoints (url @ ''/'') = shopify_endpoints url"
  using endpoint_collection endpoint_store endpoints_collection endpoints_store
  by (simp add: get_shopify_json_url_def shopify_endpoints_def rstrip_slash_trailing)

lemma starts_with_iff: "starts_with p s \<longleftrightarrow> (\<exists>b. s = p @ b)"
  by (induction p s rule: starts_with.induct) auto

lemma contains_iff: "contains p s \<longleftrightarrow> (\<exists>a b. s = a @ p @ b)"
proof (induction s)
  case Nil
  then show ?case by (auto simp: starts_with_iff)
next
  case (Cons x xs)
  show ?case
  proof
    assume "contains p (x # xs)"
    then have "starts_with p (x # xs) \<or> contains p xs" by (auto split: if_splits)
    then show "\<exists>a b. x # xs = a @ p @ b"
    proof
      assume "starts_with p (x # xs)"
      then obtain b where "x # xs = p @ b" using starts_with_iff by blast
      then have "x # xs = [] @ p @ b" by simp
      then show ?thesis by blast
    next
      assume "contains p xs"
      with Cons.IH obtain a b where "xs = a @ p @ b" by blast
      then have "x # xs = (x # a) @ p @ b" by simp
      then show ?thesis by blast
    qed
  next
    assume "\<exists>a b. x # xs = a @ p @ b"
    then obtain a b where ab: "x # xs = a @ p @ b" by blast
    show "contains p (x # xs)"
    proof (cases a)
      case Nil
      with ab have "starts_with p (x # xs)" using starts_with_iff by auto
      then show ?thesis by simp
    next
      case (Cons y ys)
      with ab have "xs = ys @ p @ b" by simp
      with Cons.IH have "contains p xs" by blast
      then show ?thesis by simp
    qed
  qed
qed

lemma contains_prefix: "contains (p @ q) s \<Longrightarrow> contains p s"
proof -
  assume "contains (p @ q) s"
  then obtain a b where "s = a @ (p @ q) @ b" using contains_iff by blast
  then have "s = a @ p @ (q @ b)" by simp
  then show ?thesis using contains_iff by blast
qed

lemma abs_like_contains_abs:
  "contains ''abs-like'' s \<Longrightarrow> contains ''abs'' s"
  "contains ''abs like'' s \<Longrightarrow> contains ''abs'' s"
  using contains_prefix[of "''abs''" "''-like''" s] contains_prefix[of "''abs''" "'' like''" s]
  by simp_all

text \<open>
  C10 (amended). The type detector never returns "ABS-Like": every text containing
  "abs-like" or "abs like" contains "abs", and a text containing "abs" is answered by the
  "abs" check or an earlier one: "PLA+" when it contains "pla+" or "pla plus", else "PETG"
  when it contains "petg", else "ABS".
\<close>

theorem detect_product_type_never_abs_like:
  "detect_product_type title product_type \<noteq> ''ABS-Like''
   \<and> (contains ''abs'' (lower (title @ '' '' @ product_type)) \<longrightarrow>
        detect_product_type title product_type
          = (if contains ''pla+'' (lower (title @ '' '' @ product_type))
                \<or> contains ''pla plus'' (lower (title @ '' '' @ product_type)) then ''PLA+''
             else if contains ''petg'' (lower (title @ '' '' @ product_type)) then ''PETG''
             else ''ABS''))"
  using abs_like_contains_abs[of "lower (title @ '' '' @ product_type)"]
  by (auto simp add: detect_product_type_def Let_def)

text \<open>
  Counterexample to C10 as written, in its middle part: a text containing "abs" is not
  always typed "ABS".
\<close>

theorem detect_product_type_abs_counterexample:
  "contains ''abs'' (lower (''PETG ABS Blend'' @ '' '' @ ''''))
   \<and> detect_product_type ''PETG ABS Blend'' '''' = ''PETG''"
  by code_simp

text \<open>Witness for C10: the title "ABS-Like Resin" is typed "ABS".\<close>

theorem detect_product_type_never_abs_like_witness:
  "contains ''abs'' (lower (''ABS-Like Resin'' @ '' '' @ ''''))
   \<and> detect_product_type ''ABS-Like Resin'' '''' \<noteq> ''ABS-Like''
   \<and> detect_product_type ''ABS-Like Resin'' '''' = ''ABS''"
proof -
  have c: "contains ''abs'' (lower (''ABS-Like Resin'' @ '' '' @ ''''))" by code_simp
  have p: "\<not> (contains ''pla+'' (lower (''ABS-Like Resin'' @ '' '' @ ''''))
      \<or> contains ''pla plus'' (lower (''ABS-Like Resin'' @ '' '' @ '''')))" by code_simp
  have g: "\<not> contains ''petg'' (lower (''ABS-Like Resin'' @ '' '' @ ''''))" by code_simp
  from detect_product_type_never_abs_like[of "''ABS-Like Resin''" "''''"] c p g
  show ?thesis by simp
qed

lemma enrich_category_unused:
  "enrich_product py_str product category = enrich_product py_str product category'"
  by (cases product) simp_all

lemma enrich_mystery_filament:
  "enrich_product py_str
     (JObj [(''brand'', JStr ''Polymaker''), (''name'', JStr ''Mystery Material XYZ'')])
     ''filament''
   = Inr (JObj [(''brand'', JStr ''Polymaker''), (''name'', JStr ''Mystery Material XYZ''),
                (''type'', JStr ''Standard''), (''color'', JStr ''#808080''),
                (''color_name'', JStr ''Grey''), (''tags'', JList [JStr ''Standard''])])"
  by code_simp

text \<open>
  C6. Enrichment of a filament record whose name matches no keyword: the type filled in
  is "Standard", and the category has no influence on the result of enrichment.
\<close>

theorem enrich_filament_default_is_standard:
  "enrich_product py_str
     (JObj [(''brand'', JStr ''Polymaker''), (''name'', JStr ''Mystery Material XYZ'')])
     ''filament''
   = Inr (JObj [(''brand'', JStr ''Polymaker''), (''name'', JStr ''Mystery Material XYZ''),
                (''type'', JStr ''Standard''), (''color'', JStr ''#808080''),
                (''color_name'', JStr ''Grey''), (''tags'', JList [JStr ''Standard''])])
   \<and> enrich_product py_str product ''filament'' = enrich_product py_str product ''resin''"
  using enrich_mystery_filament enrich_category_unused by blast

text \<open>
  Counterexample to C7 as written: a name given as a dict with a rendered title is
  replaced by that title.
\<close>

theorem enrich_rewrites_name_counterexample:
  "enrich_product (\<lambda>v. '''')
     (JObj [(''brand'', JStr ''AmeraLabs''), (''name'', JObj [(''rendered'', JStr ''Tough Resin'')]),
            (''type'', JStr ''Tough''), (''color'', JStr ''#808080''),
            (''tags'', JList [JStr ''Tough''])])
     ''resin''
   = Inr (JObj [(''brand'', JStr ''AmeraLabs''), (''name'', JStr ''Tough Resin''),
            (''type'', JStr ''Tough''), (''color'', JStr ''#808080''),
            (''tags'', JList [JStr ''Tough''])])"
  by code_simp

lemma map_of_update_other: "k \<noteq> k' \<Longrightarrow> map_of (AList.update k' v al) k = map_of al k"
  by (simp add: update_conv')

lemma opt_get_update_other: "k \<noteq> k' \<Longrightarrow> opt_get (AList.update k' v al) k = opt_get al k"
  by (simp add: opt_get_def update_conv')

lemma fill_type_frame:
  assumes "fill_type name p = Inr p'"
  shows "(\<forall>k. k \<noteq> ''type'' \<longrightarrow> map_of p' k = map_of p k)
       \<and> (truthy (opt_get p ''type'') \<longrightarrow> p' = p)"
  using assms
  by (auto simp add: fill_type_def map_of_update_other split: if_splits jval.splits)

lemma fill_color_frame:
  assumes "fill_color name p = Inr p'"
  shows "(\<forall>k. k \<noteq> ''color'' \<and> k \<noteq> ''color_name'' \<longrightarrow> map_of p' k = map_of p k)
       \<and> (truthy (opt_get p ''color'') \<longrightarrow> p' = p)"
  using assms
  by (auto simp add: fill_color_def map_of_update_other split: if_splits jval.splits prod.splits)

lemma fill_tags_frame:
  "\<forall>k. k \<noteq> ''tags'' \<longrightarrow> map_of (fill_tags p) k = map_of p k"
  by (auto simp add: fill_tags_def map_of_update_other)

lemma opt_get_cong: "map_of p' k = map_of p k \<Longrightarrow> opt_get p' k = opt_get p k"
  by (simp add: opt_get_def)

lemma fills_frame:
  assumes "fill_type name p = Inr p1" "fill_color name p1 = Inr p2"
  shows "(truthy (opt_get p ''type'') \<longrightarrow> opt_get (fill_tags p2) ''type'' = opt_get p ''type'')
       \<and> (truthy (opt_get p ''color'') \<longrightarrow> opt_get (fill_tags p2) ''color'' = opt_get p ''color'')
       \<and> (\<forall>k. k \<notin> {''type'', ''color'', ''color_name'', ''tags''} \<longrightarrow>
             map_of (fill_tags p2) k = map_of p k)"
proof -
  from fill_type_frame[OF assms(1)] have
    t1: "\<And>k. k \<noteq> ''type'' \<Longrightarrow> map_of p1 k = map_of p k" and
    t2: "truthy (opt_get p ''type'') \<Longrightarrow> p1 = p"
    by blast+
  from fill_color_frame[OF assms(2)] have
    c1: "\<And>k. k \<noteq> ''color'' \<Longrightarrow> k \<noteq> ''color_name'' \<Longrightarrow> map_of p2 k = map_of p1 k" and
    c2: "truthy (opt_get p1 ''color'') \<Longrightarrow> p2 = p1"
    by blast+
  from fill_tags_frame[of p2] have
    g: "\<And>k. k \<noteq> ''tags'' \<Longrightarrow> map_of (fill_tags p2) k = map_of p2 k"
    by blast
  have 1: "opt_get (fill_tags p2) ''type'' = opt_get p ''type''" if "truthy (opt_get p ''type'')"
  proof -
    have "map_of (fill_tags p2) ''type'' = map_of p2 ''type''" by (rule g) simp
    also have "\<dots> = map_of p1 ''type''" by (rule c1) simp_all
    also have "\<dots> = map_of p ''type''" using t2[OF that] by simp
    finally show ?thesis by (rule opt_get_cong)
  qed
  have 2: "opt_get (fill_tags p2) ''color'' = opt_get p ''color''" if "truthy (opt_get p ''color'')"
  proof -
    have e: "map_of p1 ''color'' = map_of p ''color''" by (rule t1) simp
    then have "opt_get p1 ''color'' = opt_get p ''color''" by (rule opt_get_cong)
    with that have "truthy (opt_get p1 ''color'')" by simp
    then have p21: "p2 = p1" by (rule c2)
    have "map_of (fill_tags p2) ''color'' = map_of p2 ''color''" by (rule g) simp
    also have "\<dots> = map_of p ''color''" using p21 e by simp
    finally show ?thesis by (rule opt_get_cong)
  qed
  have 3: "map_of (fill_tags p2) k = map_of p k"
    if "k \<notin> {''type'', ''color'', ''color_name'', ''tags''}" for k
  proof -
    from that have k: "k \<noteq> ''type''" "k \<noteq> ''color''" "k \<noteq> ''color_name''" "k \<noteq> ''tags''"
      by blast+
    have "map_of (fill_tags p2) k = map_of p2 k" by (rule g[OF k(4)])
    also have "\<dots> = map_of p1 k" by (rule c1[OF k(2,3)])
    also have "\<dots> = map_of p k" by (rule t1[OF k(1)])
    finally show ?thesis .
  qed
  from 1 2 3 show ?thesis by blast
qed

lemma bind_Inr: "bind m f = Inr r \<Longrightarrow> \<exists>x. m = Inr x \<and> f x = Inr r"
  by (cases m) (simp_all add: bind_def)

lemma fills_Inr:
  assumes "bind (fill_type name p) (\<lambda>product1.
           bind (fill_color name product1) (\<lambda>product2. Inr (JObj (fill_tags product2)))) = Inr result"
  shows "\<exists>p1 p2. fill_type name p = Inr p1 \<and> fill_color name p1 = Inr p2
           \<and> result = JObj (fill_tags p2)"
proof -
  from bind_Inr[OF assms] obtain p1 where
    p1: "fill_type name p = Inr p1"
    "bind (fill_color name p1) (\<lambda>product2. Inr (JObj (fill_tags product2))) = Inr result"
    by blast
  from bind_Inr[OF p1(2)] obtain p2 where
    p2: "fill_color name p1 = Inr p2" "Inr (JObj (fill_tags p2)) = (Inr result :: py_error + jval)"
    by blast
  from p2(2) have "result = JObj (fill_tags p2)" by simp
  with p1(1) p2(1) show ?thesis by blast
qed

lemma enrich_dict_name:
  assumes "get_or product ''name'' (JStr []) = JObj d"
  shows "enrich_product py_str (JObj product) category =
           bind (fill_type (get_or d ''rendered'' (JStr (py_str (JObj d))))
                  (AList.update ''name'' (get_or d ''rendered'' (JStr (py_str (JObj d)))) product))
             (\<lambda>product1.
           bind (fill_color (get_or d ''rendered'' (JStr (py_str (JObj d)))) product1)
             (\<lambda>product2. Inr (JObj (fill_tags product2))))"
  using assms by (simp add: Let_def)

lemma enrich_plain_name:
  assumes "\<forall>d. get_or product ''name'' (JStr []) \<noteq> JObj d"
  shows "enrich_product py_str (JObj product) category =
           bind (fill_type (get_or product ''name'' (JStr [])) product) (\<lambda>product1.
           bind (fill_color (get_or product ''name'' (JStr [])) product1)
             (\<lambda>product2. Inr (JObj (fill_tags product2))))"
  using assms by (cases "get_or product ''name'' (JStr [])") simp_all

text \<open>
  C7 (amended). When enrichment returns, a type (respectively a colour) that was present
  and non-empty is unchanged, every field other than name, type, color, color_name and
  tags is unchanged, and the name is unchanged unless it was a dict.
\<close>

theorem enrich_additive:
  assumes "enrich_product py_str (JObj product) category = Inr result"
  shows "\<exists>product'. result = JObj product'
       \<and> (truthy (opt_get product ''type'') \<longrightarrow>
            opt_get product' ''type'' = opt_get product ''type'')
       \<and> (truthy (opt_get product ''color'') \<longrightarrow>
            opt_get product' ''color'' = opt_get product ''color'')
       \<and> (\<forall>k. k \<notin> {''name'', ''type'', ''color'', ''color_name'', ''tags''} \<longrightarrow>
            map_of product' k = map_of product k)
       \<and> ((\<forall>d. get_or product ''name'' (JStr []) \<noteq> JObj d) \<longrightarrow>
            map_of product' ''name'' = map_of product ''name'')"
proof (cases "\<exists>d. get_or product ''name'' (JStr []) = JObj d")
  case True
  then obtain d where d: "get_or product ''name'' (JStr []) = JObj d" by blast
  define name where "name = get_or d ''rendered'' (JStr (py_str (JObj d)))"
  define p0 where "p0 = AList.update ''name'' name product"
  from assms enrich_dict_name[OF d, of py_str category]
  have "bind (fill_type name p0) (\<lambda>product1.
        bind (fill_color name product1) (\<lambda>product2. Inr (JObj (fill_tags product2)))) = Inr result"
    by (simp add: name_def p0_def)
  from fills_Inr[OF this] obtain p1 p2 where
    s: "fill_type name p0 = Inr p1" "fill_color name p1 = Inr p2" "result = JObj (fill_tags p2)"
    by blast
  from fills_frame[OF s(1,2)] have
    f1: "truthy (opt_get p0 ''type'') \<Longrightarrow> opt_get (fill_tags p2) ''type'' = opt_get p0 ''type''" and
    f2: "truthy (opt_get p0 ''color'') \<Longrightarrow> opt_get (fill_tags p2) ''color'' = opt_get p0 ''color''" and
    f3: "\<And>k. k \<notin> {''type'', ''color'', ''color_name'', ''tags''} \<Longrightarrow>
            map_of (fill_tags p2) k = map_of p0 k"
    by blast+
  have o1: "opt_get p0 ''type'' = opt_get product ''type''"
    by (simp add: p0_def opt_get_update_other)
  have o2: "opt_get p0 ''color'' = opt_get product ''color''"
    by (simp add: p0_def opt_get_update_other)
  have o3: "map_of p0 k = map_of product k" if "k \<noteq> ''name''" for k
    using that by (simp add: p0_def map_of_update_other)
  have 3: "map_of (fill_tags p2) k = map_of product k"
    if "k \<notin> {''name'', ''type'', ''color'', ''color_name'', ''tags''}" for k
  proof -
    from that have "k \<notin> {''type'', ''color'', ''color_name'', ''tags''}" "k \<noteq> ''name''"
      by blast+
    then show ?thesis using f3 o3 by simp
  qed
  have A: "truthy (opt_get product ''type'') \<longrightarrow>
            opt_get (fill_tags p2) ''type'' = opt_get product ''type''"
    using f1 o1 by simp
  have B: "truthy (opt_get product ''color'') \<longrightarrow>
            opt_get (fill_tags p2) ''color'' = opt_get product ''color''"
    using f2 o2 by simp
  have C: "\<forall>k. k \<notin> {''name'', ''type'', ''color'', ''color_name'', ''tags''} \<longrightarrow>
            map_of (fill_tags p2) k = map_of product k"
    using 3 by blast
  have D: "(\<forall>d. get_or product ''name'' (JStr []) \<noteq> JObj d) \<longrightarrow>
            map_of (fill_tags p2) ''name'' = map_of product ''name''"
    using True by blast
  from s(3) A B C D show ?thesis by blast
next
  case False
  then have nd: "\<forall>d. get_or product ''name'' (JStr []) \<noteq> JObj d" by blast
  from assms enrich_plain_name[OF nd, of py_str category]
  have "bind (fill_type (get_or product ''name'' (JStr [])) product) (\<lambda>product1.
        bind (fill_color (get_or product ''name'' (JStr [])) product1)
          (\<lambda>product2. Inr (JObj (fill_tags product2)))) = Inr result"
    by simp
  from fills_Inr[OF this] obtain p1 p2 where
    s: "fill_type (get_or product ''name'' (JStr [])) product = Inr p1"
       "fill_color (get_or product ''name'' (JStr [])) p1 = Inr p2"
       "result = JObj (fill_tags p2)"
    by blast
  from fills_frame[OF s(1,2)] have
    f1: "truthy (opt_get product ''type'') \<Longrightarrow>
           opt_get (fill_tags p2) ''type'' = opt_get product ''type''" and
    f2: "truthy (opt_get product ''color'') \<Longrightarrow>
           opt_get (fill_tags p2) ''color'' = opt_get product ''color''" and
    f3: "\<And>k. k \<notin> {''type'', ''color'', ''color_name'', ''tags''} \<Longrightarrow>
            map_of (fill_tags p2) k = map_of product k"
    by blast+
  have 3: "map_of (fill_tags p2) k = map_of product k"
    if "k \<notin> {''name'', ''type'', ''color'', ''color_name'', ''tags''}" for k
  proof -
    from that have "k \<notin> {''type'', ''color'', ''color_name'', ''tags''}" by blast
    then show ?thesis by (rule f3)
  qed
  have 4: "map_of (fill_tags p2) ''name'' = map_of product ''name''"
    by (rule f3) simp
  have A: "truthy (opt_get product ''type'') \<longrightarrow>
            opt_get (fill_tags p2) ''type'' = opt_get product ''type''"
    using f1 by simp
  have B: "truthy (opt_get product ''color'') \<longrightarrow>
            opt_get (fill_tags p2) ''color'' = opt_get product ''color''"
    using f2 by simp
  have C: "\<forall>k. k \<notin> {''name'', ''type'', ''color'', ''color_name'', ''tags''} \<longrightarrow>
            map_of (fill_tags p2) k = map_of product k"
    using 3 by blast
  from s(3) A B C 4 show ?thesis by blast
qed

text \<open>Witness for C7: a record with a type and no colour.\<close>

theorem enrich_additive_witness:
  "enrich_product (\<lambda>v. '''')
     (JObj [(''brand'', JStr ''Polymaker''), (''name'', JStr ''PolyTerra Red''),
            (''type'', JStr ''PLA''), (''price'', JInt 19)])
     ''filament''
   = Inr (JObj [(''brand'', JStr ''Polymaker''), (''name'', JStr ''PolyTerra Red''),
            (''type'', JStr ''PLA''), (''price'', JInt 19), (''color'', JStr ''#ef4444''),
            (''color_name'', JStr ''Red''), (''tags'', JList [JStr ''PLA''])])
   \<and> truthy (opt_get [(''brand'', JStr ''Polymaker''), (''name'', JStr ''PolyTerra Red''),
            (''type'', JStr ''PLA''), (''price'', JInt 19)] ''type'')
   \<and> opt_get [(''brand'', JStr ''Polymaker''), (''name'', JStr ''PolyTerra Red''),
            (''type'', JStr ''PLA''), (''price'', JInt 19), (''color'', JStr ''#ef4444''),
            (''color_name'', JStr ''Red''), (''tags'', JList [JStr ''PLA''])] ''type''
       = opt_get [(''brand'', JStr ''Polymaker''), (''name'', JStr ''PolyTerra Red''),
            (''type'', JStr ''PLA''), (''price'', JInt 19)] ''type''"
proof -
  let ?p = "[(''brand'', JStr ''Polymaker''), (''name'', JStr ''PolyTerra Red''),
            (''type'', JStr ''PLA''), (''price'', JInt 19)]"
  let ?q = "[(''brand'', JStr ''Polymaker''), (''name'', JStr ''PolyTerra Red''),
            (''type'', JStr ''PLA''), (''price'', JInt 19), (''color'', JStr ''#ef4444''),
            (''color_name'', JStr ''Red''), (''tags'', JList [JStr ''PLA''])]"
  have e: "enrich_product (\<lambda>v. '''') (JObj ?p) ''filament'' = Inr (JObj ?q)" by code_simp
  have t: "truthy (opt_get ?p ''type'')" by code_simp
  from enrich_additive[OF e] obtain product' where
    r: "JObj ?q = JObj product'"
       "truthy (opt_get ?p ''type'') \<longrightarrow> opt_get product' ''type'' = opt_get ?p ''type''"
    by blast
  from r(1) have "product' = ?q" by simp
  with r(2) t have "opt_get ?q ''type'' = opt_get ?p ''type''" by blast
  with e t show ?thesis by blast
qed

section \<open>Properties of the Shopify strategy\<close>

lemma shopify_empty_title:
  "scrape_shopify
     (\<lambda>u. Response 200 (Some (JObj [(''products'', JList [JObj [(''title'', JStr '''')]])])))
     py_float py_str ''https://store.example.com'' ''Acme'' ''resin''
   = [JObj [(''brand'', JStr ''Acme''),
            (''name'', JStr ''''),
            (''type'', JStr ''Standard''),
            (''image'', JNull),
            (''color'', JStr ''#808080''),
            (''color_name'', JStr ''Grey''),
            (''price'', JNull),
            (''tags'', JList [JStr ''Standard'']),
            (''description'', JNull),
            (''url'', JStr ''https://store.example.com/products/None''),
            (''fuente_datos'', JStr ''shopify_api'')]]"
  by code_simp

lemma shopify_no_title:
  "scrape_shopify
     (\<lambda>u. Response 200 (Some (JObj [(''products'', JList [JObj [(''handle'', JStr ''x'')]])])))
     py_float py_str ''https://store.example.com'' ''Acme'' ''resin''
   = [JObj [(''brand'', JStr ''Acme''),
            (''name'', JStr ''''),
            (''type'', JStr ''Standard''),
            (''image'', JNull),
            (''color'', JStr ''#808080''),
            (''color_name'', JStr ''Grey''),
            (''price'', JNull),
            (''tags'', JList [JStr ''Standard'']),
            (''description'', JNull),
            (''url'', JStr ''https://store.example.com/products/x''),
            (''fuente_datos'', JStr ''shopify_api'')]]"
  by code_simp

text \<open>
  C5. Every record a strategy returns should have a non-empty name. The Shopify strategy
  does not ensure it: for a store answering with one product whose title is empty, or
  which has no title, it returns one record, and the name of that record is empty.
\<close>

theorem shopify_emits_empty_name:
  "scrape_shopify
     (\<lambda>u. Response 200 (Some (JObj [(''products'', JList [JObj [(''title'', JStr '''')]])])))
     py_float py_str ''https://store.example.com'' ''Acme'' ''resin''
   = [JObj [(''brand'', JStr ''Acme''),
            (''name'', JStr ''''),
            (''type'', JStr ''Standard''),
            (''image'', JNull),
            (''color'', JStr ''#808080''),
            (''color_name'', JStr ''Grey''),
            (''price'', JNull),
            (''tags'', JList [JStr ''Standard'']),
            (''description'', JNull),
            (''url'', JStr ''https://store.example.com/products/None''),
            (''fuente_datos'', JStr ''shopify_api'')]]
   \<and> scrape_shopify
     (\<lambda>u. Response 200 (Some (JObj [(''products'', JList [JObj [(''handle'', JStr ''x'')]])])))
     py_float py_str ''https://store.example.com'' ''Acme'' ''resin''
   = [JObj [(''brand'', JStr ''Acme''),
            (''name'', JStr ''''),
            (''type'', JStr ''Standard''),
            (''image'', JNull),
            (''color'', JStr ''#808080''),
            (''color_name'', JStr ''Grey''),
            (''price'', JNull),
            (''tags'', JList [JStr ''Standard'']),
            (''description'', JNull),
            (''url'', JStr ''https://store.example.com/products/x''),
            (''fuente_datos'', JStr ''shopify_api'')]]"
  using shopify_empty_title shopify_no_title by (rule conjI)

end
